theory Spec2Isabelle
  imports Main "HOL-Library.Word" "HOL-Library.DAList"
begin

section \<open>The Raft node of tinykv (package raft), embedded from raft.go\<close>

text \<open>
  The Go file is translated function by function. Mutation of the receiver \<open>r *Raft\<close>
  is state passing: every method takes the node and returns the new node. A Go
  \<open>uint64\<close> is a 64-bit word (addition wraps), a Go \<open>int\<close> is a 64-bit word compared
  as a signed number (\<open><s\<close>, \<open><=s\<close>). A Go map is an association list with distinct
  keys (\<open>DAList\<close>): \<open>len\<close> is the length of the list and \<open>range\<close> visits the keys in
  list order. Go leaves the order of \<open>range\<close> over a map unspecified, so the theorems
  below only state facts that do not depend on it. Calls to the logger have no effect on
  the node and are left out.
\<close>

type_synonym uint64 = "64 word"
type_synonym go_int = "64 word"

subsection \<open>Constants and types\<close>

definition None' :: uint64 where
  "None' = 0"

datatype StateType = StateFollower | StateCandidate | StateLeader

datatype error = errors_New string

definition ErrProposalDropped :: error where
  "ErrProposalDropped = errors_New ''raft proposal dropped''"

fun Error :: "error \<Rightarrow> string" where
  "Error (errors_New s) = s"

text \<open>
  A run-time panic of the Go program: the explicit \<open>panic(err.Error())\<close> of \<open>newRaft\<close>,
  and the assignment to an entry of a nil map, which \<open>poll\<close> performs when the vote
  table has never been allocated.
\<close>

datatype panic = Panic string | NilMapAssignment

text \<open>
  Modelled from the spec: the generated package eraftpb, which declares \<open>MessageType\<close>
  and \<open>Message\<close>, is not among the sources. The message types are those of section 6
  of the specification, under the names raft.go uses for them. Of a message, the fields
  that raft.go reads or writes are kept.
\<close>

datatype MessageType =
    MessageType_MsgHup
  | MessageType_MsgBeat
  | MessageType_MsgPropose
  | MessageType_MsgAppend
  | MessageType_MsgAppendResponse
  | MessageType_MsgRequestVote
  | MessageType_MsgRequestVoteResponse
  | MessageType_MsgSnapshot
  | MessageType_MsgHeartbeat
  | MessageType_MsgHeartbeatResponse
  | MessageType_MsgTransferLeader
  | MessageType_MsgTimeoutNow

record Message =
  MsgType :: MessageType
  To :: uint64
  From :: uint64
  Term :: uint64
  LogTerm :: uint64
  Index :: uint64
  Reject :: bool

text \<open>
  The zero value \<open>pb.Message{}\<close>; a composite literal sets some fields of it. Every
  literal in raft.go sets \<open>MsgType\<close>, so the zero value of that field is never read.
\<close>

definition Message_zero :: Message where
  "Message_zero =
     \<lparr>MsgType = MessageType_MsgHup, To = 0, From = 0, Message.Term = 0,
      LogTerm = 0, Index = 0, Reject = False\<rparr>"

text \<open>
  Modelled from the spec: \<open>RaftLog\<close>, \<open>newLog\<close> and the \<open>Storage\<close> interface are declared
  in files of the package that are not among the sources. raft.go only calls
  \<open>LastIndex()\<close> and \<open>LastTerm()\<close> on the log, so the log view is the pair of these two
  values; \<open>newLog\<close> is a parameter of \<open>newRaft\<close>, and the storage is any type \<open>'s\<close>
  (\<open>None\<close> is the nil interface).
\<close>

record RaftLog =
  LastIndex :: uint64
  LastTerm :: uint64

record 's Config =
  ID :: uint64
  peers :: "uint64 list"
  ElectionTick :: go_int
  HeartbeatTick :: go_int
  Storage :: "'s option"
  Applied :: uint64

record Progress =
  Match :: uint64
  Next :: uint64

text \<open>
  The node. \<open>votes\<close> is \<open>None\<close> while the map is nil (\<open>newRaft\<close> does not allocate it)
  and \<open>Some\<close> of the table once \<open>becomeCandidate\<close> has made it. \<open>Prs\<close> is allocated by
  \<open>newRaft\<close> and only read later, and a nil slice \<open>msgs\<close> appends like an empty one.
\<close>

record Raft =
  id' :: uint64
  Term :: uint64
  Vote :: uint64
  RaftLog :: RaftLog
  Prs :: "(uint64, Progress) alist"
  State :: StateType
  votes :: "(uint64, bool) alist option"
  msgs :: "Message list"
  Lead :: uint64
  heartbeatTimeout :: go_int
  electionTimeout :: go_int
  heartbeatElapsed :: go_int
  electionElapsed :: go_int
  leadTransferee :: uint64
  PendingConfIndex :: uint64

text \<open>\<open>len\<close> of a map.\<close>

definition len :: "('k, 'v) alist \<Rightarrow> nat" where
  "len m = length (DAList.impl_of m)"

text \<open>The keys of a map, in the order \<open>range\<close> visits them.\<close>

definition keys :: "('k, 'v) alist \<Rightarrow> 'k list" where
  "keys m = map fst (DAList.impl_of m)"

subsection \<open>Configuration and construction\<close>

definition validate :: "'s Config \<Rightarrow> error option" where
  "validate c =
     (if ID c = None' then Some (errors_New ''cannot use none as id'')
      else if HeartbeatTick c <=s 0 then
        Some (errors_New ''heartbeat tick must be greater than 0'')
      else if ElectionTick c <=s HeartbeatTick c then
        Some (errors_New ''election tick must be greater than heartbeat tick'')
      else if Storage c = None then Some (errors_New ''storage cannot be nil'')
      else None)"

subsection \<open>Role transitions\<close>

definition reset :: "Raft \<Rightarrow> uint64 \<Rightarrow> Raft" where
  "reset r term =
     (let r1 = (if Raft.Term r \<noteq> term then r\<lparr>Raft.Term := term, Vote := None'\<rparr> else r)
      in r1\<lparr>Lead := 0, electionElapsed := 0, heartbeatElapsed := 0\<rparr>)"

definition becomeFollower :: "Raft \<Rightarrow> uint64 \<Rightarrow> uint64 \<Rightarrow> Raft" where
  "becomeFollower r term lead =
     (let r1 = reset r (Raft.Term r)
      in r1\<lparr>Lead := lead, Raft.Term := term, State := StateFollower\<rparr>)"

definition becomeCandidate :: "Raft \<Rightarrow> Raft" where
  "becomeCandidate r =
     (let r1 = reset r (Raft.Term r + 1)
      in r1\<lparr>State := StateCandidate, Vote := id' r1, votes := Some DAList.empty\<rparr>)"

definition becomeLeader :: "Raft \<Rightarrow> Raft" where
  "becomeLeader r =
     (let r1 = reset r (Raft.Term r)
      in r1\<lparr>State := StateLeader\<rparr>)"

definition newRaft :: "('s \<Rightarrow> RaftLog) \<Rightarrow> 's Config \<Rightarrow> panic + Raft" where
  "newRaft newLog c =
     (case validate c of
        Some err \<Rightarrow> Inl (Panic (Error err))
      | None \<Rightarrow>
          (case Storage c of
             None \<Rightarrow> Inl (Panic ''storage cannot be nil'')
           | Some s \<Rightarrow>
               (let r = \<lparr>id' = ID c, Raft.Term = 0, Vote = 0, RaftLog = newLog s,
                         Prs = DAList.empty, State = StateFollower, votes = None,
                         msgs = [], Lead = 0,
                         heartbeatTimeout = HeartbeatTick c,
                         electionTimeout = ElectionTick c,
                         heartbeatElapsed = 0, electionElapsed = 0,
                         leadTransferee = 0, PendingConfIndex = 0\<rparr>;
                    r1 = fold (\<lambda>i r. r\<lparr>Prs := DAList.update i \<lparr>Match = 0, Next = 0\<rparr> (Prs r)\<rparr>)
                           (peers c) r
                in Inr (becomeFollower r1 (Raft.Term r1) None'))))"

subsection \<open>Sending, polling and campaigning\<close>

definition send :: "Raft \<Rightarrow> Message \<Rightarrow> Raft" where
  "send r m = r\<lparr>msgs := msgs r @ [m\<lparr>From := id' r\<rparr>]\<rparr>"

definition readMessages :: "Raft \<Rightarrow> Message list \<times> Raft" where
  "readMessages r = (msgs r, r\<lparr>msgs := []\<rparr>)"

definition poll :: "Raft \<Rightarrow> uint64 \<Rightarrow> bool \<Rightarrow> panic + (Raft \<times> bool)" where
  "poll r from vote =
     (if \<not> vote then Inr (r, False)
      else
        (case votes r of
           None \<Rightarrow> Inl NilMapAssignment
         | Some vs \<Rightarrow>
             (let vs1 = DAList.update from True vs;
                  r1 = r\<lparr>votes := Some vs1\<rparr>
              in if len vs1 > 1 + len (Prs r1) div 2 then Inr (r1, True)
                 else Inr (r1, False))))"

definition campaign :: "Raft \<Rightarrow> Raft" where
  "campaign r =
     (let r1 = becomeCandidate r;
          lastIndexId = LastIndex (RaftLog r1);
          lastLogTerm = LastTerm (RaftLog r1)
      in fold (\<lambda>i r. send r (Message_zero\<lparr>From := id' r, To := i, Message.Term := Raft.Term r,
                                 MsgType := MessageType_MsgRequestVote,
                                 Index := lastIndexId, LogTerm := lastLogTerm\<rparr>))
           (keys (Prs r1)) r1)"

definition hup :: "Raft \<Rightarrow> Raft" where
  "hup r = (if State r = StateLeader then r else campaign r)"

subsection \<open>Per-role handlers\<close>

definition stepLeader :: "Raft \<Rightarrow> Message \<Rightarrow> Raft \<times> error option" where
  "stepLeader r m = (r, None)"

definition stepFollower :: "Raft \<Rightarrow> Message \<Rightarrow> Raft \<times> error option" where
  "stepFollower r m =
     (case MsgType m of
        MessageType_MsgHup \<Rightarrow> (becomeCandidate r, None)
      | _ \<Rightarrow> (r, None))"

definition stepCandidate :: "Raft \<Rightarrow> Message \<Rightarrow> panic + (Raft \<times> error option)" where
  "stepCandidate r m =
     (case MsgType m of
        MessageType_MsgHup \<Rightarrow> Inr (r, None)
      | MessageType_MsgRequestVoteResponse \<Rightarrow>
          (case poll r (From m) (\<not> Reject m) of
             Inl p \<Rightarrow> Inl p
           | Inr (r1, res) \<Rightarrow> Inr (if res then becomeLeader r1 else r1, None))
      | MessageType_MsgHeartbeat \<Rightarrow> Inr (becomeFollower r (Message.Term m) (From m), None)
      | MessageType_MsgPropose \<Rightarrow> Inr (r, None)
      | _ \<Rightarrow> Inr (r, None))"

subsection \<open>Message dispatch\<close>

text \<open>
  The second \<open>switch\<close> of \<open>Step\<close>, on the message type. The errors returned by the
  per-role handlers are discarded by \<open>Step\<close>, which ends with \<open>return nil\<close>.
\<close>

definition Step_dispatch :: "Raft \<Rightarrow> Message \<Rightarrow> panic + (Raft \<times> error option)" where
  "Step_dispatch r m =
     (case MsgType m of
        MessageType_MsgHup \<Rightarrow> Inr (hup r, None)
      | MessageType_MsgRequestVote \<Rightarrow>
          (let canVote = (Vote r = From m \<or> (Vote r = None' \<and> Lead r = None'))
           in if canVote then
                (let r1 = send r (Message_zero\<lparr>From := id' r, To := From m,
                                     Message.Term := Raft.Term r,
                                     MsgType := MessageType_MsgRequestVoteResponse\<rparr>)
                 in Inr (r1\<lparr>electionElapsed := 0, Vote := From m\<rparr>, None))
              else
                Inr (send r (Message_zero\<lparr>From := id' r, To := From m,
                                Message.Term := Raft.Term r,
                                MsgType := MessageType_MsgRequestVoteResponse,
                                Reject := True\<rparr>), None))
      | _ \<Rightarrow>
          (case State r of
             StateLeader \<Rightarrow> Inr (fst (stepLeader r m), None)
           | StateCandidate \<Rightarrow>
               (case stepCandidate r m of
                  Inl p \<Rightarrow> Inl p
                | Inr (r1, err) \<Rightarrow> Inr (r1, None))
           | StateFollower \<Rightarrow> Inr (fst (stepFollower r m), None)))"

text \<open>
  \<open>Step\<close>: the first \<open>switch\<close> (the term preamble) and then the dispatch. The result is
  the new node and the returned error (\<open>None\<close> is \<open>nil\<close>), or a panic.
\<close>

definition Step :: "Raft \<Rightarrow> Message \<Rightarrow> panic + (Raft \<times> error option)" where
  "Step r m =
     (if Message.Term m = 0 then Step_dispatch r m
      else if Message.Term m > Raft.Term r then
        (let inLease = (Lead r \<noteq> None' \<and> electionElapsed r <s electionTimeout r)
         in if MsgType m = MessageType_MsgRequestVote \<and> inLease then Inr (r, None)
            else if MsgType m = MessageType_MsgAppend \<or> MsgType m = MessageType_MsgHeartbeat
                    \<or> MsgType m = MessageType_MsgSnapshot
            then Step_dispatch (becomeFollower r (Message.Term m) (From m)) m
            else Step_dispatch (becomeFollower r (Message.Term m) None') m)
      else if Message.Term m < Raft.Term r then Inr (r, None)
      else Step_dispatch r m)"

subsection \<open>The logical clock\<close>

definition tickElection :: "Raft \<Rightarrow> panic + Raft" where
  "tickElection r =
     (let r1 = r\<lparr>electionElapsed := electionElapsed r + 1\<rparr>
      in if electionTimeout r1 <s electionElapsed r1 then
           (case Step r1 (Message_zero\<lparr>From := id' r1, MsgType := MessageType_MsgHup\<rparr>) of
              Inl p \<Rightarrow> Inl p
            | Inr (r2, err) \<Rightarrow> Inr r2)
         else Inr r1)"

definition tickHeatbeat :: "Raft \<Rightarrow> Raft" where
  "tickHeatbeat r = r"

definition tick :: "Raft \<Rightarrow> panic + Raft" where
  "tick r =
     (case State r of
        StateFollower \<Rightarrow> tickElection r
      | StateCandidate \<Rightarrow> tickElection r
      | StateLeader \<Rightarrow> Inr (tickHeatbeat r))"


subsection \<open>Reading the node\<close>

text \<open>
  The index expression \<open>r.votes[k]\<close>: a key that is absent, or any key of a nil map,
  reads as \<open>false\<close>.
\<close>

definition votes_index :: "Raft \<Rightarrow> uint64 \<Rightarrow> bool" where
  "votes_index r k =
     (case votes r of
        None \<Rightarrow> False
      | Some vs \<Rightarrow> (case DAList.lookup vs k of None \<Rightarrow> False | Some b \<Rightarrow> b))"

text \<open>The largest \<open>uint64\<close>, \<open>math.MaxUint64\<close>: adding one to it gives zero.\<close>

definition MaxUint64 :: uint64 where
  "MaxUint64 = - 1"

text \<open>
  Every node that \<open>newRaft\<close>, \<open>Step\<close> and \<open>tick\<close> produce has its vote table allocated
  whenever it is a candidate, because only \<open>becomeCandidate\<close> sets the candidate state.
\<close>

definition votes_allocated :: "Raft \<Rightarrow> bool" where
  "votes_allocated r = (State r \<noteq> StateCandidate \<or> votes r \<noteq> None)"

subsection \<open>The specification's vote rule and tally, in its own words\<close>

text \<open>
  These definitions follow section 4.4 and section 4.6 of the specification, not the
  code: the up-to-date comparison of the two logs, the rule for granting a vote, and the
  three-valued result of the tally over a cluster of \<open>n\<close> peers.
\<close>

definition spec_logUpToDate :: "Message \<Rightarrow> Raft \<Rightarrow> bool" where
  "spec_logUpToDate m r =
     (LogTerm m > LastTerm (RaftLog r)
      \<or> (LogTerm m = LastTerm (RaftLog r) \<and> Index m \<ge> LastIndex (RaftLog r)))"

definition spec_grant :: "Message \<Rightarrow> Raft \<Rightarrow> bool" where
  "spec_grant m r =
     ((Vote r = From m \<or> (Vote r = None' \<and> Lead r = None')) \<and> spec_logUpToDate m r)"

datatype VoteResult = VoteWon | VoteLost | VotePending

definition spec_tally :: "(uint64, bool) alist \<Rightarrow> nat \<Rightarrow> VoteResult" where
  "spec_tally vs n =
     (if length (filter snd (DAList.impl_of vs)) > n div 2 then VoteWon
      else if length (filter (\<lambda>kv. \<not> snd kv) (DAList.impl_of vs)) > n div 2 then VoteLost
      else VotePending)"

subsection \<open>Concrete nodes and messages\<close>

text \<open>
  A three-node cluster \<open>{1, 2, 3}\<close> seen from node 1: its configuration, the node
  \<open>newRaft\<close> builds from it, and the candidate it becomes on its first \<open>MsgHup\<close>.
\<close>

definition example_newLog :: "unit \<Rightarrow> RaftLog" where
  "example_newLog s = \<lparr>LastIndex = 0, LastTerm = 0\<rparr>"

definition example_config :: "unit Config" where
  "example_config = \<lparr>ID = 1, peers = [1, 2, 3], ElectionTick = 10, HeartbeatTick = 1,
     Storage = Some (), Applied = 0\<rparr>"

definition example_Prs :: "(uint64, Progress) alist" where
  "example_Prs = DAList.update 3 \<lparr>Match = 0, Next = 0\<rparr> (DAList.update 2 \<lparr>Match = 0, Next = 0\<rparr>
     (DAList.update 1 \<lparr>Match = 0, Next = 0\<rparr> DAList.empty))"

definition example_node :: Raft where
  "example_node = \<lparr>id' = 1, Raft.Term = 0, Vote = 0, RaftLog = \<lparr>LastIndex = 0, LastTerm = 0\<rparr>,
     Prs = example_Prs, State = StateFollower, votes = None, msgs = [], Lead = 0,
     heartbeatTimeout = 1, electionTimeout = 10, heartbeatElapsed = 0, electionElapsed = 0,
     leadTransferee = 0, PendingConfIndex = 0\<rparr>"

definition requestVote_to :: "uint64 \<Rightarrow> Message" where
  "requestVote_to p = \<lparr>MsgType = MessageType_MsgRequestVote, To = p, From = 1, Message.Term = 1,
     LogTerm = 0, Index = 0, Reject = False\<rparr>"

definition example_candidate :: Raft where
  "example_candidate = example_node\<lparr>Raft.Term := 1, Vote := 1, State := StateCandidate,
     votes := Some DAList.empty,
     msgs := [requestVote_to 1, requestVote_to 2, requestVote_to 3]\<rparr>"

definition hup_msg :: Message where
  "hup_msg = Message_zero\<lparr>From := 1, MsgType := MessageType_MsgHup\<rparr>"

definition propose_msg :: Message where
  "propose_msg = Message_zero\<lparr>MsgType := MessageType_MsgPropose, From := 1, To := 1\<rparr>"

text \<open>A message of type \<open>t\<close> and term \<open>term\<close> that peer 3 sends to node 1.\<close>

definition leader_msg :: "MessageType \<Rightarrow> uint64 \<Rightarrow> Message" where
  "leader_msg t term = Message_zero\<lparr>MsgType := t, From := 3, To := 1, Message.Term := term\<rparr>"

text \<open>Vote tables holding the grants of peers 1, then 1 and 2, then 1, 2 and 3.\<close>

definition votes_1 :: "(uint64, bool) alist" where
  "votes_1 = DAList.update 1 True DAList.empty"

definition votes_12 :: "(uint64, bool) alist" where
  "votes_12 = DAList.update 2 True votes_1"

definition votes_123 :: "(uint64, bool) alist" where
  "votes_123 = DAList.update 3 True votes_12"

definition tally_candidate :: Raft where
  "tally_candidate = example_candidate\<lparr>votes := Some votes_1\<rparr>"

text \<open>
  A follower at term 6 that has not voted and knows no leader, whose log ends at index 10
  in term 5; a RequestVote of term 6 from peer 2, whose log ends at index 4 in term 3;
  and the reply the follower sends.
\<close>

definition stale_voter :: Raft where
  "stale_voter = example_node\<lparr>Raft.Term := 6, RaftLog := \<lparr>LastIndex = 10, LastTerm = 5\<rparr>\<rparr>"

definition stale_request :: Message where
  "stale_request = \<lparr>MsgType = MessageType_MsgRequestVote, To = 1, From = 2, Message.Term = 6,
     LogTerm = 3, Index = 4, Reject = False\<rparr>"

definition stale_reply :: Message where
  "stale_reply = \<lparr>MsgType = MessageType_MsgRequestVoteResponse, To = 2, From = 1,
     Message.Term = 6, LogTerm = 0, Index = 0, Reject = False\<rparr>"

text \<open>
  Scenario S4 of the specification: a leader at term 3, which voted for itself when it
  was a candidate, and a heartbeat of term 5 from peer 7.
\<close>

definition S4_leader :: Raft where
  "S4_leader = example_node\<lparr>Raft.Term := 3, Vote := 1, State := StateLeader,
     votes := Some votes_123\<rparr>"

definition S4_msg :: Message where
  "S4_msg = Message_zero\<lparr>MsgType := MessageType_MsgHeartbeat, From := 7, To := 1,
     Message.Term := 5\<rparr>"

text \<open>
  Scenario S5 of the specification: a follower at term 2 that follows leader 4, and a
  RequestVote of term 3 from peer 9.
\<close>

definition S5_node :: Raft where
  "S5_node = example_node\<lparr>Raft.Term := 2, Lead := 4\<rparr>"

definition S5_msg :: Message where
  "S5_msg = Message_zero\<lparr>MsgType := MessageType_MsgRequestVote, From := 9, To := 1,
     Message.Term := 3\<rparr>"

text \<open>
  A follower whose term is the largest \<open>uint64\<close>, as the node built by \<open>newRaft\<close>
  is after an Append of that term from peer 3, and the candidate at term 0 that it
  becomes on \<open>MsgHup\<close>.
\<close>

definition wrap_follower :: Raft where
  "wrap_follower = example_node\<lparr>Raft.Term := MaxUint64, Lead := 3\<rparr>"

definition wrapped_candidate :: Raft where
  "wrapped_candidate = example_node\<lparr>Raft.Term := 0, Vote := 1, State := StateCandidate,
     votes := Some DAList.empty,
     msgs := [(requestVote_to 1)\<lparr>Message.Term := 0\<rparr>, (requestVote_to 2)\<lparr>Message.Term := 0\<rparr>,
              (requestVote_to 3)\<lparr>Message.Term := 0\<rparr>]\<rparr>"

section \<open>Auxiliary facts\<close>

lemmas example_defs = example_newLog_def example_config_def example_Prs_def example_node_def
  requestVote_to_def example_candidate_def hup_msg_def

lemmas alist_rep = DAList.update.rep_eq DAList.empty.rep_eq

lemma unat_MaxUint64: "unat MaxUint64 = 2 ^ 64 - 1"
  by (simp add: MaxUint64_def unsigned_minus_1_eq_mask mask_eq_exp_minus_1)

lemma word_le_succ:
  fixes x :: uint64
  assumes "x \<noteq> MaxUint64"
  shows "x \<le> x + 1"
proof -
  from assms have "\<not> x + 1 \<le> x"
    by (simp add: MaxUint64_def inc_less_eq_self_iff_eq)
  then show ?thesis by simp
qed

lemma word_succ_le_iff:
  fixes x :: uint64
  shows "x \<le> x + 1 \<longleftrightarrow> x \<noteq> MaxUint64"
proof
  assume "x \<le> x + 1"
  then show "x \<noteq> MaxUint64"
    by (auto simp: MaxUint64_def)
next
  assume "x \<noteq> MaxUint64"
  then show "x \<le> x + 1" by (rule word_le_succ)
qed

lemma word_less_succ_iff:
  fixes x y :: uint64
  assumes "x < y"
  shows "x \<le> y + 1 \<longleftrightarrow> \<not> (y = MaxUint64 \<and> x \<noteq> 0)"
proof (cases "y = MaxUint64")
  case True
  then show ?thesis by (simp add: MaxUint64_def)
next
  case False
  then have "y \<le> y + 1" by (rule word_le_succ)
  with assms False show ?thesis by simp
qed

lemma MaxUint64_nonzero: "MaxUint64 \<noteq> 0" "0 < MaxUint64"
  by (simp_all add: MaxUint64_def word_gt_0)

lemma one_less_minus_one: "(1 :: uint64) < - 1"
  by (simp add: word_less_nat_alt unsigned_minus_1_eq_mask mask_eq_exp_minus_1)

subsection \<open>Evaluating the example\<close>

lemma newRaft_example: "newRaft example_newLog example_config = Inr example_node"
  by (simp add: newRaft_def validate_def example_defs becomeFollower_def reset_def None'_def
      word_sle_eq)

lemma keys_example_Prs: "keys example_Prs = [1, 2, 3]"
  by (simp add: keys_def example_Prs_def alist_rep)

lemma Step_example_hup: "Step example_node hup_msg = Inr (example_candidate, None)"
  by (simp add: Step_def Step_dispatch_def hup_def campaign_def becomeCandidate_def reset_def
      send_def Message_zero_def hup_msg_def keys_example_Prs example_node_def
      example_candidate_def requestVote_to_def)

subsection \<open>The peer table built by \<open>newRaft\<close>\<close>

lemma keys_update: "set (keys (DAList.update k v m)) = insert k (set (keys m))"
  by (simp add: keys_def DAList.update.rep_eq dom_update)

lemma fold_Prs_update:
  "set (keys (Prs (fold (\<lambda>i r. r\<lparr>Prs := DAList.update i v (Prs r)\<rparr>) ps r)))
     = set (keys (Prs r)) \<union> set ps
   \<and> id' (fold (\<lambda>i r. r\<lparr>Prs := DAList.update i v (Prs r)\<rparr>) ps r) = id' r"
  by (induction ps arbitrary: r) (auto simp: keys_update)

lemma newRaft_Prs:
  assumes "newRaft newLog c = Inr r"
  shows "set (keys (Prs r)) = set (peers c) \<and> id' r = ID c"
proof -
  from assms obtain s where s: "Storage c = Some s" and v: "validate c = None"
    by (auto simp: newRaft_def split: option.splits)
  have e: "keys (DAList.empty :: (uint64, Progress) alist) = []"
    by (simp add: keys_def DAList.empty.rep_eq)
  from assms s v show ?thesis
    by (auto simp: newRaft_def Let_def becomeFollower_def reset_def fold_Prs_update e)
qed

subsection \<open>The loop of \<open>campaign\<close>\<close>

lemma fold_send_msgs:
  "fold (\<lambda>i r. send r (Message_zero\<lparr>From := id' r, To := i, Message.Term := Raft.Term r,
                              MsgType := MessageType_MsgRequestVote,
                              Index := li, LogTerm := lt\<rparr>)) ks r
   = r\<lparr>msgs := msgs r @ map (\<lambda>i. \<lparr>MsgType = MessageType_MsgRequestVote, To = i, From = id' r,
                                   Message.Term = Raft.Term r, LogTerm = lt, Index = li,
                                   Reject = False\<rparr>) ks\<rparr>"
proof (induction ks arbitrary: r)
  case Nil
  then show ?case by simp
next
  case (Cons k ks)
  show ?case
    by (simp add: Cons.IH) (simp add: send_def Message_zero_def)
qed

lemma msgs_campaign:
  "msgs (campaign r) =
     msgs r @ map (\<lambda>i. \<lparr>MsgType = MessageType_MsgRequestVote, To = i, From = id' r,
                        Message.Term = Raft.Term r + 1, LogTerm = LastTerm (RaftLog r),
                        Index = LastIndex (RaftLog r), Reject = False\<rparr>) (keys (Prs r))"
  by (simp add: campaign_def Let_def fold_send_msgs)
    (simp add: becomeCandidate_def reset_def Let_def)

lemma Term_campaign: "Raft.Term (campaign r) = Raft.Term r + 1"
  by (simp add: campaign_def Let_def fold_send_msgs)
    (simp add: becomeCandidate_def reset_def Let_def)

lemma votes_campaign:
  "votes (campaign r) = Some DAList.empty \<and> State (campaign r) = StateCandidate"
  by (simp add: campaign_def Let_def fold_send_msgs)
    (simp add: becomeCandidate_def reset_def Let_def)

subsection \<open>How each function changes the term\<close>

lemma Term_becomeFollower: "Raft.Term (becomeFollower r t l) = t"
  by (simp add: becomeFollower_def reset_def Let_def)

lemma State_becomeFollower: "State (becomeFollower r t l) = StateFollower"
  by (simp add: becomeFollower_def reset_def Let_def)

lemma Term_becomeLeader: "Raft.Term (becomeLeader r) = Raft.Term r"
  by (simp add: becomeLeader_def reset_def Let_def)

lemma Term_poll:
  assumes "poll r from v = Inr (r', b)"
  shows "Raft.Term r' = Raft.Term r"
  using assms by (auto simp: poll_def Let_def split: if_splits option.splits)

lemma Term_Step_dispatch_eq:
  assumes "Step_dispatch r m = Inr (r', e)"
  shows "Raft.Term r' =
     (if MsgType m = MessageType_MsgHup
      then (if State r = StateLeader then Raft.Term r else Raft.Term r + 1)
      else if State r = StateCandidate \<and> MsgType m = MessageType_MsgHeartbeat
      then Message.Term m else Raft.Term r)"
proof (cases "MsgType m = MessageType_MsgHup")
  case True
  with assms have "r' = hup r"
    by (simp add: Step_dispatch_def)
  with True show ?thesis
    by (simp add: hup_def Term_campaign)
next
  case nohup: False
  show ?thesis
  proof (cases "MsgType m = MessageType_MsgRequestVote")
    case True
    with assms show ?thesis
      by (auto simp: Step_dispatch_def send_def Let_def split: if_splits)
  next
    case False
    show ?thesis
    proof (cases "State r")
      case StateFollower
      with nohup False assms show ?thesis
        by (auto simp: Step_dispatch_def stepFollower_def split: MessageType.splits)
    next
      case StateLeader
      with nohup False assms show ?thesis
        by (auto simp: Step_dispatch_def stepLeader_def split: MessageType.splits)
    next
      case StateCandidate
      with nohup False assms obtain e1 where sc: "stepCandidate r m = Inr (r', e1)"
        by (auto simp: Step_dispatch_def split: MessageType.splits sum.splits)
      show ?thesis
      proof (cases "MsgType m")
        case MessageType_MsgRequestVoteResponse
        with sc obtain r1 res where p: "poll r (From m) (\<not> Reject m) = Inr (r1, res)"
          and r': "r' = (if res then becomeLeader r1 else r1)"
          by (auto simp: stepCandidate_def split: sum.splits)
        from Term_poll [OF p] r' MessageType_MsgRequestVoteResponse show ?thesis
          by (simp add: Term_becomeLeader)
      next
        case MessageType_MsgHeartbeat
        with sc StateCandidate show ?thesis
          by (auto simp: stepCandidate_def Term_becomeFollower)
      qed (use sc nohup False StateCandidate in \<open>auto simp: stepCandidate_def\<close>)
    qed
  qed
qed

lemma Term_Step_eq:
  assumes "Step r m = Inr (r', e)"
  shows "Raft.Term r' =
     (if Message.Term m = 0 \<or> Message.Term m = Raft.Term r
      then (if MsgType m = MessageType_MsgHup
            then (if State r = StateLeader then Raft.Term r else Raft.Term r + 1)
            else if State r = StateCandidate \<and> MsgType m = MessageType_MsgHeartbeat
            then Message.Term m else Raft.Term r)
      else if Raft.Term r < Message.Term m
      then (if MsgType m = MessageType_MsgRequestVote \<and> Lead r \<noteq> None'
               \<and> electionElapsed r <s electionTimeout r
            then Raft.Term r
            else if MsgType m = MessageType_MsgHup then Message.Term m + 1
            else Message.Term m)
      else Raft.Term r)"
proof -
  consider (same) "Message.Term m = 0 \<or> Message.Term m = Raft.Term r"
    | (higher) "Message.Term m \<noteq> 0" "Raft.Term r < Message.Term m"
    | (lower) "Message.Term m \<noteq> 0" "Message.Term m < Raft.Term r"
    by fastforce
  then show ?thesis
  proof cases
    case same
    have "Step r m = Step_dispatch r m"
    proof (cases "Message.Term m = 0")
      case True
      then show ?thesis by (simp add: Step_def)
    next
      case False
      with same have "Message.Term m = Raft.Term r" by simp
      with False show ?thesis by (simp add: Step_def)
    qed
    with assms have "Step_dispatch r m = Inr (r', e)"
      by simp
    from Term_Step_dispatch_eq [OF this] same show ?thesis
      by simp
  next
    case higher
    show ?thesis
    proof (cases "MsgType m = MessageType_MsgRequestVote \<and> Lead r \<noteq> None'
               \<and> electionElapsed r <s electionTimeout r")
      case True
      with assms higher show ?thesis
        by (auto simp: Step_def Let_def)
    next
      case False
      with assms higher obtain l
        where d: "Step_dispatch (becomeFollower r (Message.Term m) l) m = Inr (r', e)"
        by (auto simp: Step_def Let_def split: if_splits)
      from Term_Step_dispatch_eq [OF d] False higher show ?thesis
        by (auto simp: Term_becomeFollower State_becomeFollower)
    qed
  next
    case lower
    with assms show ?thesis
      by (auto simp: Step_def split: if_splits)
  qed
qed

lemma Term_tick_eq:
  assumes "tick r = Inr r'"
  shows "Raft.Term r' =
     (if State r \<noteq> StateLeader \<and> electionTimeout r <s electionElapsed r + 1
      then Raft.Term r + 1 else Raft.Term r)"
proof (cases "State r = StateLeader")
  case True
  with assms show ?thesis
    by (simp add: tick_def tickHeatbeat_def)
next
  case False
  then have te: "tickElection r = Inr r'"
    using assms by (cases "State r") (simp_all add: tick_def)
  define r1 where "r1 = r\<lparr>electionElapsed := electionElapsed r + 1\<rparr>"
  show ?thesis
  proof (cases "electionTimeout r1 <s electionElapsed r1")
    case True
    with te obtain e
      where s: "Step r1 (Message_zero\<lparr>From := id' r1, MsgType := MessageType_MsgHup\<rparr>)
                = Inr (r', e)"
      by (auto simp: tickElection_def Let_def r1_def split: sum.splits)
    from Term_Step_eq [OF s] True False show ?thesis
      by (simp add: r1_def Message_zero_def)
  next
    case False
    with te show ?thesis
      by (auto simp: tickElection_def Let_def r1_def)
  qed
qed

subsection \<open>\<open>Step\<close> and \<open>tick\<close> return\<close>

text \<open>
  On a node whose vote table is allocated whenever it is a candidate, \<open>Step\<close> and
  \<open>tick\<close> do not panic, \<open>Step\<close> returns nil, and the new node is again such a node.
  The node built by \<open>newRaft\<close> is one, so this covers every run of the program.
\<close>

lemma poll_total:
  assumes "votes r \<noteq> None"
  shows "\<exists>r' b. poll r from v = Inr (r', b) \<and> State r' = State r \<and> votes r' \<noteq> None"
  using assms by (auto simp: poll_def Let_def)

lemma stepCandidate_total:
  assumes "votes r \<noteq> None"
  shows "\<exists>r'. stepCandidate r m = Inr (r', None) \<and> votes_allocated r'"
proof (cases "MsgType m = MessageType_MsgRequestVoteResponse")
  case True
  from poll_total [OF assms, of "From m" "\<not> Reject m"] obtain r1 b
    where "poll r (From m) (\<not> Reject m) = Inr (r1, b)" and "votes r1 \<noteq> None"
    by blast
  with True show ?thesis
    by (auto simp: stepCandidate_def votes_allocated_def becomeLeader_def reset_def Let_def)
next
  case False
  with assms show ?thesis
    by (cases "MsgType m")
      (auto simp: stepCandidate_def votes_allocated_def becomeFollower_def reset_def Let_def)
qed

lemma Step_dispatch_total:
  assumes "votes_allocated r"
  shows "\<exists>r'. Step_dispatch r m = Inr (r', None) \<and> votes_allocated r'"
proof (cases "State r = StateCandidate")
  case True
  with assms have v: "votes r \<noteq> None"
    by (simp add: votes_allocated_def)
  from stepCandidate_total [OF v, of m] obtain r1
    where "stepCandidate r m = Inr (r1, None)" and "votes_allocated r1"
    by blast
  with True v show ?thesis
    by (cases "MsgType m")
      (auto simp: Step_dispatch_def hup_def votes_campaign votes_allocated_def send_def Let_def)
next
  case False
  then show ?thesis
    by (cases "MsgType m"; cases "State r")
      (auto simp: Step_dispatch_def hup_def votes_campaign votes_allocated_def send_def Let_def
        stepLeader_def stepFollower_def becomeCandidate_def reset_def)
qed

lemma Step_total:
  assumes "votes_allocated r"
  shows "\<exists>r'. Step r m = Inr (r', None) \<and> votes_allocated r'"
proof -
  have f: "votes_allocated (becomeFollower r t l)" for t l
    by (simp add: votes_allocated_def State_becomeFollower)
  from assms Step_dispatch_total [OF assms, of m]
    Step_dispatch_total [OF f [of "Message.Term m" "From m"], of m]
    Step_dispatch_total [OF f [of "Message.Term m" None'], of m]
  show ?thesis
    by (auto simp: Step_def Let_def)
qed

lemma tick_total:
  assumes "votes_allocated r"
  shows "\<exists>r'. tick r = Inr r' \<and> votes_allocated r'"
proof -
  define r1 where "r1 = r\<lparr>electionElapsed := electionElapsed r + 1\<rparr>"
  from assms have a: "votes_allocated r1"
    by (simp add: r1_def votes_allocated_def)
  from Step_total [OF a, of "Message_zero\<lparr>From := id' r1, MsgType := MessageType_MsgHup\<rparr>"] a
  have "\<exists>r'. tickElection r = Inr r' \<and> votes_allocated r'"
    by (auto simp: tickElection_def Let_def r1_def)
  with assms show ?thesis
    by (cases "State r") (auto simp: tick_def tickHeatbeat_def)
qed

lemma newRaft_votes_allocated:
  assumes "newRaft newLog c = Inr r"
  shows "votes_allocated r"
  using assms
  by (auto simp: newRaft_def votes_allocated_def State_becomeFollower Let_def
      split: option.splits)

lemma Step_never_returns_error:
  assumes "Step r m = Inr (r', e)"
  shows "e = None"
  using assms
  by (auto simp: Step_def Step_dispatch_def Let_def
      split: if_splits MessageType.splits StateType.splits sum.splits)

subsection \<open>A message of a higher term from a leader\<close>

text \<open>
  \<open>becomeFollower\<close> calls \<open>reset\<close> with the node's old term and assigns the new term
  afterwards, so \<open>reset\<close> never sees a change of term and leaves \<open>Vote\<close> as it was.
\<close>

lemma Step_higher_term_from_leader:
  assumes "MsgType m = MessageType_MsgAppend \<or> MsgType m = MessageType_MsgHeartbeat
           \<or> MsgType m = MessageType_MsgSnapshot"
    and "Raft.Term r < Message.Term m"
  shows "Step r m = Inr (r\<lparr>Lead := From m, Raft.Term := Message.Term m, State := StateFollower,
                           electionElapsed := 0, heartbeatElapsed := 0\<rparr>, None)"
proof -
  from assms(2) have "Message.Term m \<noteq> 0"
    by (metis word_not_simps(1))
  with assms show ?thesis
    by (auto simp: Step_def Step_dispatch_def becomeFollower_def reset_def stepFollower_def)
qed

subsection \<open>The vote rule of the dispatch\<close>

text \<open>
  Whatever the node and the term, the dispatch of a RequestVote decides on \<open>Vote\<close>
  and \<open>Lead\<close> alone; \<open>LogTerm\<close> and \<open>Index\<close> of the message are not read.
\<close>

lemma Step_dispatch_RequestVote:
  assumes "MsgType m = MessageType_MsgRequestVote"
  shows "Step_dispatch r m =
     Inr (if Vote r = From m \<or> (Vote r = None' \<and> Lead r = None')
          then r\<lparr>msgs := msgs r @ [\<lparr>MsgType = MessageType_MsgRequestVoteResponse, To = From m,
                                      From = id' r, Message.Term = Raft.Term r, LogTerm = 0,
                                      Index = 0, Reject = False\<rparr>],
                 electionElapsed := 0, Vote := From m\<rparr>
          else r\<lparr>msgs := msgs r @ [\<lparr>MsgType = MessageType_MsgRequestVoteResponse, To = From m,
                                      From = id' r, Message.Term = Raft.Term r, LogTerm = 0,
                                      Index = 0, Reject = True\<rparr>]\<rparr>,
          None)"
  using assms by (simp add: Step_dispatch_def send_def Message_zero_def)

section \<open>Properties\<close>

text \<open>
  C1 (vote rule), evaluated: a RequestVote is to be granted only if the candidate's log
  is at least as up-to-date as the node's own. The follower \<open>stale_voter\<close>, at term 6
  with no vote cast and no leader, has a log that ends at index 10 in term 5; the
  candidate's log ends at index 4 in term 3, so the specification's rule denies the vote.
  \<open>Step\<close> grants it: for the request of term 6 and for the same request at the
  higher term 7 it replies with \<open>Reject = false\<close> and sets \<open>Vote = 2\<close>.
\<close>

theorem Step_RequestVote_grants_stale_log:
  "\<not> spec_logUpToDate stale_request stale_voter
   \<and> \<not> spec_grant stale_request stale_voter
   \<and> Step stale_voter stale_request =
       Inr (stale_voter\<lparr>msgs := [stale_reply], electionElapsed := 0, Vote := 2\<rparr>, None)
   \<and> Reject stale_reply = False
   \<and> \<not> spec_grant (stale_request\<lparr>Message.Term := 7\<rparr>) stale_voter
   \<and> Step stale_voter (stale_request\<lparr>Message.Term := 7\<rparr>) =
       Inr (stale_voter\<lparr>Raft.Term := 7, msgs := [stale_reply\<lparr>Message.Term := 7\<rparr>],
                        electionElapsed := 0, Vote := 2\<rparr>, None)"
  by (simp add: spec_grant_def spec_logUpToDate_def stale_request_def stale_voter_def
      stale_reply_def example_node_def Step_def Step_dispatch_def send_def Message_zero_def
      becomeFollower_def reset_def None'_def)

text \<open>
  C2 (tally), as the specification states it: \<open>poll\<close> records the vote and returns Won
  exactly when the granted count exceeds \<open>N div 2\<close>, Lost exactly when the denied count
  does, and Pending otherwise. In a cluster of three, a candidate that holds the grant of
  peer 1 polls a grant of peer 2: two grants exceed \<open>3 div 2\<close> and the specification's
  tally is Won, and \<open>poll\<close> returns \<open>false\<close>. The same candidate polls a denial of
  peer 3: \<open>poll\<close> returns the node as it was, with no entry for peer 3.
\<close>

theorem poll_tally_counterexample:
  "poll tally_candidate 2 True = Inr (tally_candidate\<lparr>votes := Some votes_12\<rparr>, False)
   \<and> spec_tally votes_12 (len (Prs tally_candidate)) = VoteWon
   \<and> poll tally_candidate 3 False = Inr (tally_candidate, False)
   \<and> votes tally_candidate = Some votes_1
   \<and> DAList.lookup votes_1 3 = None"
  by (simp add: poll_def tally_candidate_def example_defs len_def alist_rep votes_12_def
      votes_1_def spec_tally_def DAList.lookup.rep_eq)

text \<open>
  C2 (tally), amended: \<open>poll\<close> returns a boolean, \<open>true\<close> for won. A denied vote is
  not recorded: the node is unchanged and the result is \<open>false\<close>. A granted vote is
  recorded as \<open>votes[from] = true\<close> in the allocated table, and \<open>poll\<close> returns \<open>true\<close>
  only if the table then holds strictly more than \<open>N div 2\<close> votes, where \<open>N\<close> is the
  size of \<open>Prs\<close>. There is no Lost result.
\<close>

theorem poll_result:
  "poll r from False = Inr (r, False)
   \<and> (votes r = Some vs \<longrightarrow>
        (\<exists>b. poll r from True = Inr (r\<lparr>votes := Some (DAList.update from True vs)\<rparr>, b)
           \<and> (b \<longrightarrow> len (Prs r) div 2 < len (DAList.update from True vs))))"
  by (auto simp: poll_def Let_def)

theorem poll_result_witness:
  "poll (tally_candidate\<lparr>votes := Some votes_12\<rparr>) 3 False =
        Inr (tally_candidate\<lparr>votes := Some votes_12\<rparr>, False)
   \<and> votes (tally_candidate\<lparr>votes := Some votes_12\<rparr>) = Some votes_12
   \<and> poll (tally_candidate\<lparr>votes := Some votes_12\<rparr>) 3 True =
        Inr (tally_candidate\<lparr>votes := Some votes_123\<rparr>, True)
   \<and> len (Prs tally_candidate) div 2 < len votes_123"
proof -
  have l: "len votes_123 = 3 \<and> len (Prs tally_candidate) = 3"
    by (simp add: tally_candidate_def example_defs len_def alist_rep votes_123_def
        votes_12_def votes_1_def)
  have p: "poll (tally_candidate\<lparr>votes := Some votes_12\<rparr>) 3 True =
        Inr (tally_candidate\<lparr>votes := Some votes_123\<rparr>, True)"
    using l by (simp add: poll_def votes_123_def)
  from poll_result [of "tally_candidate\<lparr>votes := Some votes_12\<rparr>" 3 votes_12] p l
  show ?thesis
    by (simp add: votes_123_def)
qed

text \<open>
  C3 (higher-term step-down), evaluated on scenario S4: the leader at term 3 receives
  \<open>Heartbeat{From = 7, Term = 5}\<close>. \<open>Step\<close> makes it a follower at term 5 with
  \<open>Lead = 7\<close> and \<open>electionElapsed = 0\<close>, and its \<open>Vote\<close> is still 1, the vote it cast
  for itself at an earlier term, where the claim expects \<open>Vote = None\<close>.
\<close>

theorem Step_higher_term_heartbeat_keeps_Vote:
  "State S4_leader = StateLeader \<and> Raft.Term S4_leader = 3 \<and> Vote S4_leader = 1
   \<and> Step S4_leader S4_msg =
       Inr (S4_leader\<lparr>Raft.Term := 5, State := StateFollower, Lead := 7\<rparr>, None)
   \<and> Vote (S4_leader\<lparr>Raft.Term := 5, State := StateFollower, Lead := 7\<rparr>) \<noteq> None'
   \<and> electionElapsed (S4_leader\<lparr>Raft.Term := 5, State := StateFollower, Lead := 7\<rparr>) = 0"
  by (simp add: S4_leader_def S4_msg_def example_node_def Step_def Step_dispatch_def
      becomeFollower_def reset_def stepFollower_def Message_zero_def None'_def)

text \<open>
  C4 (term monotonicity), as the specification states it: for every message delivered,
  the term after \<open>Step\<close> is at least the term before. Three runs from the node built
  by \<open>newRaft\<close> for the three-node cluster show otherwise. The node becomes a candidate
  at term 1 on \<open>MsgHup\<close>; a Heartbeat whose term is 0 then passes the term preamble as
  a local message, and \<open>stepCandidate\<close> makes the node a follower at the message's
  term, 0. The node adopts the largest \<open>uint64\<close> as its term from an Append; the
  campaign of the next \<open>MsgHup\<close> adds one and the term wraps to 0. The candidate at
  term 1 receives a \<open>MsgHup\<close> that carries the largest \<open>uint64\<close> as its term: the
  preamble adopts that term, the campaign adds one, and the term is 0.
\<close>

theorem Term_decreases_counterexample:
  "newRaft example_newLog example_config = Inr example_node
   \<and> Step example_node hup_msg = Inr (example_candidate, None)
   \<and> Step example_candidate (leader_msg MessageType_MsgHeartbeat 0) =
       Inr (example_candidate\<lparr>Raft.Term := 0, State := StateFollower, Lead := 3\<rparr>, None)
   \<and> Raft.Term (example_candidate\<lparr>Raft.Term := 0, State := StateFollower, Lead := 3\<rparr>)
       < Raft.Term example_candidate
   \<and> Step example_node (leader_msg MessageType_MsgAppend MaxUint64) = Inr (wrap_follower, None)
   \<and> Step wrap_follower hup_msg = Inr (wrapped_candidate, None)
   \<and> Raft.Term wrapped_candidate < Raft.Term wrap_follower
   \<and> Step example_candidate (hup_msg\<lparr>Message.Term := MaxUint64\<rparr>) =
       Inr (wrapped_candidate\<lparr>msgs := msgs example_candidate @ msgs wrapped_candidate\<rparr>, None)
   \<and> Raft.Term (wrapped_candidate\<lparr>msgs := msgs example_candidate @ msgs wrapped_candidate\<rparr>)
       < Raft.Term example_candidate"
proof -
  have hb: "Step example_candidate (leader_msg MessageType_MsgHeartbeat 0) =
       Inr (example_candidate\<lparr>Raft.Term := 0, State := StateFollower, Lead := 3\<rparr>, None)
     \<and> Raft.Term (example_candidate\<lparr>Raft.Term := 0, State := StateFollower, Lead := 3\<rparr>)
       < Raft.Term example_candidate"
    by (simp add: example_node_def example_candidate_def leader_msg_def Step_def
        Step_dispatch_def stepCandidate_def becomeFollower_def reset_def Message_zero_def
        None'_def)
  have ap: "Step example_node (leader_msg MessageType_MsgAppend MaxUint64) =
       Inr (wrap_follower, None)"
    by (simp add: example_node_def wrap_follower_def leader_msg_def Step_def
        Step_dispatch_def stepFollower_def becomeFollower_def reset_def Message_zero_def
        None'_def MaxUint64_def word_gt_0)
  have wr: "Step wrap_follower hup_msg = Inr (wrapped_candidate, None)
     \<and> Raft.Term wrapped_candidate < Raft.Term wrap_follower"
    by (simp add: Step_def Step_dispatch_def hup_def campaign_def becomeCandidate_def
        reset_def send_def Message_zero_def hup_msg_def keys_example_Prs example_node_def
        wrap_follower_def wrapped_candidate_def requestVote_to_def MaxUint64_def None'_def
        word_gt_0)
  have hm: "Step example_candidate (hup_msg\<lparr>Message.Term := MaxUint64\<rparr>) =
       Inr (wrapped_candidate\<lparr>msgs := msgs example_candidate @ msgs wrapped_candidate\<rparr>, None)
     \<and> Raft.Term (wrapped_candidate\<lparr>msgs := msgs example_candidate @ msgs wrapped_candidate\<rparr>)
       < Raft.Term example_candidate"
    by (simp add: Step_def Step_dispatch_def hup_def campaign_def becomeCandidate_def
        becomeFollower_def reset_def send_def Message_zero_def hup_msg_def keys_example_Prs
        example_node_def example_candidate_def wrapped_candidate_def requestVote_to_def
        MaxUint64_def None'_def word_gt_0 one_less_minus_one)
  from newRaft_example Step_example_hup hb ap wr hm show ?thesis
    by simp
qed

text \<open>
  C4 (term monotonicity), amended: whenever \<open>Step\<close> returns, the term after the call
  is at least the term before, except in exactly three cases, in which it is lower: a
  candidate at a non-zero term is given a Heartbeat of term 0; a node that is not the
  leader, at the largest \<open>uint64\<close> term, is given a \<open>MsgHup\<close> of term 0 or of its
  own term; a node at a non-zero term is given a \<open>MsgHup\<close> that carries the largest
  \<open>uint64\<close> as a higher term. Whenever \<open>tick\<close> returns, the term after the call is
  at least the term before, except exactly when a node that is not the leader, at the
  largest \<open>uint64\<close> term, reaches its election timeout.
\<close>

theorem Term_nondecreasing:
  "(\<forall>r' e. Step r m = Inr (r', e) \<longrightarrow>
      (Raft.Term r \<le> Raft.Term r' \<longleftrightarrow>
         \<not> (MsgType m = MessageType_MsgHeartbeat \<and> Message.Term m = 0
            \<and> State r = StateCandidate \<and> Raft.Term r \<noteq> 0)
       \<and> \<not> (MsgType m = MessageType_MsgHup
            \<and> (Message.Term m = 0 \<or> Message.Term m = Raft.Term r)
            \<and> State r \<noteq> StateLeader \<and> Raft.Term r = MaxUint64)
       \<and> \<not> (MsgType m = MessageType_MsgHup \<and> Message.Term m = MaxUint64
            \<and> Raft.Term r < MaxUint64 \<and> Raft.Term r \<noteq> 0)))
   \<and> (\<forall>r'. tick r = Inr r' \<longrightarrow>
      (Raft.Term r \<le> Raft.Term r' \<longleftrightarrow>
         \<not> (State r \<noteq> StateLeader \<and> electionTimeout r <s electionElapsed r + 1
            \<and> Raft.Term r = MaxUint64)))"
proof (intro conjI allI impI)
  fix r' e
  assume s: "Step r m = Inr (r', e)"
  note t = Term_Step_eq [OF s]
  consider (same) "Message.Term m = 0 \<or> Message.Term m = Raft.Term r"
    | (higher) "Message.Term m \<noteq> 0" "Raft.Term r < Message.Term m"
    | (lower) "Message.Term m \<noteq> 0" "Message.Term m < Raft.Term r"
    by fastforce
  then show "Raft.Term r \<le> Raft.Term r' \<longleftrightarrow>
         \<not> (MsgType m = MessageType_MsgHeartbeat \<and> Message.Term m = 0
            \<and> State r = StateCandidate \<and> Raft.Term r \<noteq> 0)
       \<and> \<not> (MsgType m = MessageType_MsgHup
            \<and> (Message.Term m = 0 \<or> Message.Term m = Raft.Term r)
            \<and> State r \<noteq> StateLeader \<and> Raft.Term r = MaxUint64)
       \<and> \<not> (MsgType m = MessageType_MsgHup \<and> Message.Term m = MaxUint64
            \<and> Raft.Term r < MaxUint64 \<and> Raft.Term r \<noteq> 0)"
  proof cases
    case same
    have z: "Raft.Term r < MaxUint64 \<Longrightarrow> Message.Term m \<noteq> MaxUint64"
      using same by (auto simp: MaxUint64_def)
    from same t z show ?thesis
      by (auto simp: word_succ_le_iff)
  next
    case higher
    from higher t word_less_succ_iff [OF higher(2)] show ?thesis
      by (auto simp: MaxUint64_def)
  next
    case lower
    then have "Message.Term m \<noteq> MaxUint64"
      by (auto simp: MaxUint64_def)
    with lower t show ?thesis
      by auto
  qed
next
  fix r'
  assume "tick r = Inr r'"
  from Term_tick_eq [OF this]
  show "Raft.Term r \<le> Raft.Term r' \<longleftrightarrow>
         \<not> (State r \<noteq> StateLeader \<and> electionTimeout r <s electionElapsed r + 1
            \<and> Raft.Term r = MaxUint64)"
    by (auto simp: word_succ_le_iff)
qed

theorem Term_nondecreasing_witness:
  "Step example_node hup_msg = Inr (example_candidate, None)
   \<and> MsgType hup_msg = MessageType_MsgHup \<and> Message.Term hup_msg = 0
   \<and> Raft.Term example_node \<noteq> MaxUint64
   \<and> Raft.Term example_node \<le> Raft.Term example_candidate
   \<and> tick example_node = Inr (example_node\<lparr>electionElapsed := 1\<rparr>)
   \<and> \<not> electionTimeout example_node <s electionElapsed example_node + 1
   \<and> Raft.Term example_node \<le> Raft.Term (example_node\<lparr>electionElapsed := 1\<rparr>)"
proof -
  have a: "Raft.Term example_node \<noteq> MaxUint64 \<and> Raft.Term example_node = 0"
    by (simp add: example_node_def MaxUint64_def)
  have b: "MsgType hup_msg = MessageType_MsgHup \<and> Message.Term hup_msg = 0"
    by (simp add: hup_msg_def Message_zero_def)
  have c: "\<not> electionTimeout example_node <s electionElapsed example_node + 1"
    by (simp add: example_node_def word_sless_alt)
  have t: "tick example_node = Inr (example_node\<lparr>electionElapsed := 1\<rparr>)"
    by (simp add: tick_def tickElection_def example_node_def word_sless_alt)
  from Term_nondecreasing [of example_node hup_msg] a b c t Step_example_hup show ?thesis
    by (simp add: MaxUint64_nonzero)
qed

text \<open>
  C5 (leader lease). A node that knows a leader (\<open>Lead \<noteq> None\<close>) and whose
  \<open>electionElapsed\<close> is below \<open>electionTimeout\<close> drops a RequestVote of a strictly
  higher term: \<open>Step\<close> returns nil and the node is unchanged, so State, Term, Vote and
  Lead are the same and nothing is appended to the outbound queue \<open>msgs\<close>.
\<close>

theorem Step_lease_drop:
  assumes "MsgType m = MessageType_MsgRequestVote"
    and "Raft.Term r < Message.Term m"
    and "Lead r \<noteq> None'"
    and "electionElapsed r <s electionTimeout r"
  shows "Step r m = Inr (r, None)"
proof -
  from assms(2) have "Message.Term m \<noteq> 0"
    by (metis word_not_simps(1))
  with assms show ?thesis by (simp add: Step_def)
qed

theorem Step_lease_drop_witness:
  "MsgType S5_msg = MessageType_MsgRequestVote \<and> Raft.Term S5_node < Message.Term S5_msg
   \<and> Lead S5_node \<noteq> None' \<and> electionElapsed S5_node <s electionTimeout S5_node
   \<and> Step S5_node S5_msg = Inr (S5_node, None) \<and> msgs S5_node = []
   \<and> State S5_node = StateFollower \<and> Raft.Term S5_node = 2"
proof -
  have a: "MsgType S5_msg = MessageType_MsgRequestVote"
    by (simp add: S5_msg_def Message_zero_def)
  have b: "Raft.Term S5_node < Message.Term S5_msg"
    by (simp add: S5_msg_def S5_node_def example_node_def Message_zero_def)
  have c: "Lead S5_node \<noteq> None'"
    by (simp add: S5_node_def None'_def)
  have d: "electionElapsed S5_node <s electionTimeout S5_node"
    by (simp add: S5_node_def example_node_def word_sless_alt)
  have e: "msgs S5_node = [] \<and> State S5_node = StateFollower \<and> Raft.Term S5_node = 2"
    by (simp add: S5_node_def example_node_def)
  from Step_lease_drop [OF a b c d] a b c d e show ?thesis by simp
qed

text \<open>
  C6 (dropped proposal), evaluated: a follower with \<open>Lead = None\<close> and a candidate each
  receive a Propose message. \<open>Step\<close> leaves the node as it was and returns nil, where
  the claim expects the error \<open>ErrProposalDropped\<close>.
\<close>

theorem Step_propose_returns_nil:
  "State example_node = StateFollower \<and> Lead example_node = None'
   \<and> Step example_node propose_msg = Inr (example_node, None)
   \<and> State example_candidate = StateCandidate
   \<and> Step example_candidate propose_msg = Inr (example_candidate, None)"
  by (simp add: example_node_def example_candidate_def propose_msg_def Step_def
      Step_dispatch_def stepFollower_def stepCandidate_def Message_zero_def None'_def)

text \<open>
  C7 (self-vote), as the specification states it: after \<open>becomeCandidate\<close> the tally
  holds \<open>votes[id] = true\<close>. For the node built by \<open>newRaft\<close> the table after
  \<open>becomeCandidate\<close> is empty, and \<open>votes[id]\<close> reads \<open>false\<close>.
\<close>

theorem becomeCandidate_no_self_vote_counterexample:
  "votes (becomeCandidate example_node) = Some DAList.empty
   \<and> \<not> votes_index (becomeCandidate example_node) (id' (becomeCandidate example_node))"
  by (simp add: becomeCandidate_def reset_def example_node_def votes_index_def)

text \<open>
  C7 (self-vote), amended: after every call to \<open>becomeCandidate\<close> the node is a
  candidate whose \<open>Vote\<close> equals its own id, whose term is the old term plus one (as
  \<open>reset(Term + 1)\<close> sets it), whose \<open>Lead\<close> is none, and whose vote table is a new
  empty table: all previously recorded votes are gone and no vote, the node's own
  included, is recorded.
\<close>

theorem becomeCandidate_state:
  "Vote (becomeCandidate r) = id' r
   \<and> id' (becomeCandidate r) = id' r
   \<and> Raft.Term (becomeCandidate r) = Raft.Term r + 1
   \<and> State (becomeCandidate r) = StateCandidate
   \<and> Lead (becomeCandidate r) = None'
   \<and> votes (becomeCandidate r) = Some DAList.empty
   \<and> \<not> votes_index (becomeCandidate r) k"
  by (simp add: becomeCandidate_def reset_def None'_def votes_index_def Let_def)

text \<open>
  C8 (candidate hears a leader), evaluated: the candidate at term 1 receives an Append
  and a Snapshot of term 1 from peer 3. \<open>Step\<close> leaves it a candidate with
  \<open>Lead = None\<close>, where the claim expects a follower of peer 3. A Heartbeat of term 1
  from the same peer does make it a follower with \<open>Lead = 3\<close>.
\<close>

theorem stepCandidate_ignores_append_snapshot:
  "State example_candidate = StateCandidate
   \<and> Raft.Term example_candidate = Message.Term (leader_msg MessageType_MsgAppend 1)
   \<and> Step example_candidate (leader_msg MessageType_MsgAppend 1) = Inr (example_candidate, None)
   \<and> Step example_candidate (leader_msg MessageType_MsgSnapshot 1) =
       Inr (example_candidate, None)
   \<and> Lead example_candidate = None'
   \<and> Step example_candidate (leader_msg MessageType_MsgHeartbeat 1) =
       Inr (example_candidate\<lparr>State := StateFollower, Lead := 3\<rparr>, None)"
  by (simp add: example_node_def example_candidate_def leader_msg_def Step_def
      Step_dispatch_def stepCandidate_def becomeFollower_def reset_def Message_zero_def
      None'_def)

text \<open>
  C9 (idempotent grant). On a node whose vote table is allocated, \<open>poll(from, true)\<close>
  returns, and calling it again on the resulting node returns the same node and the same
  result: the table after the second call equals the table after the first, so a
  duplicate grant of one peer is counted once.
\<close>

theorem poll_granted_idempotent:
  assumes "votes r = Some vs"
  shows "poll r from True =
           Inr (r\<lparr>votes := Some (DAList.update from True vs)\<rparr>,
                1 + len (Prs r) div 2 < len (DAList.update from True vs))
       \<and> poll (r\<lparr>votes := Some (DAList.update from True vs)\<rparr>) from True =
           Inr (r\<lparr>votes := Some (DAList.update from True vs)\<rparr>,
                1 + len (Prs r) div 2 < len (DAList.update from True vs))"
  using assms by (simp add: poll_def Let_def)

theorem poll_granted_idempotent_witness:
  "votes tally_candidate = Some votes_1
   \<and> poll tally_candidate 2 True = Inr (tally_candidate\<lparr>votes := Some votes_12\<rparr>, False)
   \<and> poll (tally_candidate\<lparr>votes := Some votes_12\<rparr>) 2 True =
        Inr (tally_candidate\<lparr>votes := Some votes_12\<rparr>, False)"
proof -
  have a: "votes tally_candidate = Some votes_1"
    by (simp add: tally_candidate_def)
  have b: "\<not> 1 + len (Prs tally_candidate) div 2 < len (DAList.update 2 True votes_1)"
    by (simp add: tally_candidate_def example_defs len_def alist_rep votes_1_def)
  from poll_granted_idempotent [OF a, of 2] a b show ?thesis
    by (simp add: votes_12_def)
qed

text \<open>
  C10 (campaign reaches the node itself). After \<open>campaign\<close> the outbound queue holds,
  for every id in \<open>Prs\<close>, a RequestVote addressed to it, stamped with the node's id, the
  new term and the node's last log index and term. \<open>newRaft\<close> puts every id of the
  bootstrap peer list into \<open>Prs\<close>, so when that list contains the node itself, \<open>Prs\<close>
  contains the node's own id, and the queue then holds a RequestVote whose \<open>To\<close> is the
  node's own id.
\<close>

theorem campaign_requests_every_peer:
  "(\<forall>p \<in> set (keys (Prs r)).
      \<lparr>MsgType = MessageType_MsgRequestVote, To = p, From = id' r,
       Message.Term = Raft.Term r + 1, LogTerm = LastTerm (RaftLog r),
       Index = LastIndex (RaftLog r), Reject = False\<rparr> \<in> set (msgs (campaign r)))
   \<and> (newRaft newLog c = Inr r \<and> ID c \<in> set (peers c) \<longrightarrow> id' r \<in> set (keys (Prs r)))
   \<and> (id' r \<in> set (keys (Prs r)) \<longrightarrow>
      (\<exists>m \<in> set (msgs (campaign r)).
         MsgType m = MessageType_MsgRequestVote \<and> To m = id' r \<and> From m = id' r))"
proof -
  have all: "\<forall>p \<in> set (keys (Prs r)).
      \<lparr>MsgType = MessageType_MsgRequestVote, To = p, From = id' r,
       Message.Term = Raft.Term r + 1, LogTerm = LastTerm (RaftLog r),
       Index = LastIndex (RaftLog r), Reject = False\<rparr> \<in> set (msgs (campaign r))"
    by (simp add: msgs_campaign)
  have boot: "id' r \<in> set (keys (Prs r))"
    if "newRaft newLog c = Inr r \<and> ID c \<in> set (peers c)"
    using that newRaft_Prs [of newLog c r] by simp
  have own: "\<exists>m \<in> set (msgs (campaign r)).
         MsgType m = MessageType_MsgRequestVote \<and> To m = id' r \<and> From m = id' r"
    if "id' r \<in> set (keys (Prs r))"
  proof -
    from all that have "\<lparr>MsgType = MessageType_MsgRequestVote, To = id' r, From = id' r,
       Message.Term = Raft.Term r + 1, LogTerm = LastTerm (RaftLog r),
       Index = LastIndex (RaftLog r), Reject = False\<rparr> \<in> set (msgs (campaign r))"
      by blast
    then show ?thesis
      by (rule rev_bexI) simp
  qed
  from all boot own show ?thesis by blast
qed

theorem campaign_requests_every_peer_witness:
  "newRaft example_newLog example_config = Inr example_node
   \<and> ID example_config \<in> set (peers example_config)
   \<and> id' example_node \<in> set (keys (Prs example_node))
   \<and> set (keys (Prs example_node)) = {1, 2, 3}
   \<and> requestVote_to 1 \<in> set (msgs (campaign example_node))
   \<and> requestVote_to 2 \<in> set (msgs (campaign example_node))
   \<and> requestVote_to 3 \<in> set (msgs (campaign example_node))
   \<and> (\<exists>m \<in> set (msgs (campaign example_node)).
         MsgType m = MessageType_MsgRequestVote \<and> To m = id' example_node
         \<and> From m = id' example_node)"
proof -
  have k: "keys (Prs example_node) = [1, 2, 3]"
    by (simp add: example_node_def keys_example_Prs)
  have i: "id' example_node = 1 \<and> Raft.Term example_node = 0
           \<and> RaftLog example_node = \<lparr>LastIndex = 0, LastTerm = 0\<rparr>"
    by (simp add: example_node_def)
  have c: "ID example_config \<in> set (peers example_config)"
    by (simp add: example_config_def)
  from campaign_requests_every_peer [of example_node example_newLog example_config]
    k i c newRaft_example
  show ?thesis
    by (simp add: requestVote_to_def)
qed

end
